theory Spec2Isabelle
  imports Main
begin

section \<open>Strings of the host language\<close>

text \<open>
  The program is TypeScript. A source string is a sequence of UTF-16 code units; it is
  modelled as a \<^typ>\<open>string\<close> in which every \<^typ>\<open>char\<close> stands for one code unit below
  256 (the Latin-1 range). On that range the library functions used by the program
  (\<^verbatim>\<open>trim\<close>, \<^verbatim>\<open>toLowerCase\<close>, the regular-expression classes) behave as written below.
\<close>

abbreviation dquote :: char where "dquote \<equiv> CHR 0x22"
abbreviation squote :: char where "squote \<equiv> CHR 0x27"
abbreviation backslash :: char where "backslash \<equiv> CHR 0x5C"
abbreviation LF :: char where "LF \<equiv> CHR 0x0A"
abbreviation CR :: char where "CR \<equiv> CHR 0x0D"
abbreviation TAB :: char where "TAB \<equiv> CHR 0x09"

text \<open>
  The characters removed by \<^verbatim>\<open>String.prototype.trim\<close>: white space (TAB, VT, FF, SP,
  NBSP) and line terminators (LF, CR), as far as they lie below 256.
\<close>

definition isWhiteSpace :: "char \<Rightarrow> bool" where
  "isWhiteSpace c \<longleftrightarrow>
     c = CHR 0x09 \<or> c = CHR 0x0A \<or> c = CHR 0x0B \<or> c = CHR 0x0C \<or> c = CHR 0x0D \<or>
     c = CHR 0x20 \<or> c = CHR 0xA0"

text \<open>
  The characters that \<^verbatim>\<open>.\<close> of a regular expression refuses (no \<^verbatim>\<open>s\<close> flag): the
  line terminators LF, CR, U+2028 and U+2029. Only LF and CR lie below 256; a string
  that holds U+2028 or U+2029 is outside the strings modelled here.
\<close>

definition isLineTerminator :: "char \<Rightarrow> bool" where
  "isLineTerminator c \<longleftrightarrow> c = CHR 0x0A \<or> c = CHR 0x0D"

definition trim :: "string \<Rightarrow> string" where
  "trim s = rev (dropWhile isWhiteSpace (rev (dropWhile isWhiteSpace s)))"

definition startsWith :: "string \<Rightarrow> string \<Rightarrow> bool" where
  "startsWith s p \<longleftrightarrow> take (length p) s = p"

definition endsWith :: "string \<Rightarrow> string \<Rightarrow> bool" where
  "endsWith s p \<longleftrightarrow> length p \<le> length s \<and> drop (length s - length p) s = p"

fun str_includes :: "string \<Rightarrow> string \<Rightarrow> bool" where
  "str_includes [] p = (p = [])"
| "str_includes (c # s) p = (startsWith (c # s) p \<or> str_includes s p)"

text \<open>\<^verbatim>\<open>s.indexOf(p)\<close>: the first position at which \<open>p\<close> occurs, \<open>-1\<close> when there is none.\<close>

fun indexOfFrom :: "nat \<Rightarrow> string \<Rightarrow> string \<Rightarrow> int" where
  "indexOfFrom i [] p = (if p = [] then int i else -1)"
| "indexOfFrom i (c # s) p = (if startsWith (c # s) p then int i else indexOfFrom (Suc i) s p)"

definition indexOf :: "string \<Rightarrow> string \<Rightarrow> int" where
  "indexOf s p = indexOfFrom 0 s p"

text \<open>
  \<^verbatim>\<open>slice(start, end)\<close> of strings and arrays: a negative index counts from the end,
  and both indices are clamped to the length.
\<close>

definition slice :: "'a list \<Rightarrow> int \<Rightarrow> int \<Rightarrow> 'a list" where
  "slice s start stop =
     (let n = int (length s);
          lo = (if start < 0 then max (n + start) 0 else min start n);
          hi = (if stop < 0 then max (n + stop) 0 else min stop n)
      in take (nat (hi - lo)) (drop (nat lo) s))"

definition sliceFrom :: "'a list \<Rightarrow> int \<Rightarrow> 'a list" where
  "sliceFrom s start = slice s start (int (length s))"

text \<open>\<^verbatim>\<open>substring(start, end)\<close>: negative indices count as 0, and the two are swapped when
  \<open>start > end\<close>.\<close>

definition substring :: "string \<Rightarrow> int \<Rightarrow> int \<Rightarrow> string" where
  "substring s start stop =
     (let a = nat (max start 0); b = nat (max stop 0); lo = min a b; hi = max a b
      in take (hi - lo) (drop lo s))"

text \<open>\<^verbatim>\<open>s.split(sep)\<close> for a separator of one character: never the empty list.\<close>

fun split_str :: "char \<Rightarrow> string \<Rightarrow> string list" where
  "split_str sep [] = [[]]"
| "split_str sep (c # cs) =
     (if c = sep then [] # split_str sep cs
      else (case split_str sep cs of
              [] \<Rightarrow> [[c]]
            | w # ws \<Rightarrow> (c # w) # ws))"

fun join :: "string \<Rightarrow> string list \<Rightarrow> string" where
  "join sep [] = []"
| "join sep [x] = x"
| "join sep (x # y # ys) = x @ sep @ join sep (y # ys)"

text \<open>
  \<^verbatim>\<open>toLowerCase\<close> on code units below 256: the letters A-Z and the Latin-1 capitals
  (0xC0-0xDE without the multiplication sign 0xD7) move up by 32, the rest stays.
\<close>

definition toLowerChar :: "char \<Rightarrow> char" where
  "toLowerChar c =
     (let n = (of_char c :: nat)
      in if (65 \<le> n \<and> n \<le> 90) \<or> (192 \<le> n \<and> n \<le> 222 \<and> n \<noteq> 215)
         then char_of (n + 32) else c)"

definition toLowerCase :: "string \<Rightarrow> string" where
  "toLowerCase s = map toLowerChar s"

text \<open>Decimal rendering of a line number, as a template literal or \<^verbatim>\<open>join\<close> prints it.\<close>

definition digitChar :: "nat \<Rightarrow> char" where
  "digitChar d = char_of (48 + d)"

fun numToString :: "nat \<Rightarrow> string" where
  "numToString n = (if n < 10 then [digitChar n] else numToString (n div 10) @ [digitChar (n mod 10)])"

declare numToString.simps [simp del]

text \<open>
  \<^verbatim>\<open>replace(/\\c/g, r)\<close>: every backslash that is followed by the character \<open>c\<close> is
  replaced, together with that character, by \<open>r\<close>; the scan goes left to right and
  resumes after each match.
\<close>

fun replaceEscape :: "char \<Rightarrow> string \<Rightarrow> string \<Rightarrow> string" where
  "replaceEscape c r (x # y # s) =
     (if x = backslash \<and> y = c then r @ replaceEscape c r s
      else x # replaceEscape c r (y # s))"
| "replaceEscape c r s = s"

section \<open>An insertion-ordered map\<close>

text \<open>
  A \<^verbatim>\<open>Map\<close> of the host language iterates in insertion order, and \<^verbatim>\<open>set\<close> on a key that
  is present replaces the value where it stands. It is an association list with
  distinct keys.
\<close>

fun Map_set :: "('k \<times> 'v) list \<Rightarrow> 'k \<Rightarrow> 'v \<Rightarrow> ('k \<times> 'v) list" where
  "Map_set [] k v = [(k, v)]"
| "Map_set ((k', v') # m) k v = (if k' = k then (k, v) # m else (k', v') # Map_set m k v)"

definition Map_get :: "('k \<times> 'v) list \<Rightarrow> 'k \<Rightarrow> 'v option" where
  "Map_get m k = map_of m k"

definition Map_has :: "('k \<times> 'v) list \<Rightarrow> 'k \<Rightarrow> bool" where
  "Map_has m k \<longleftrightarrow> map_of m k \<noteq> None"

definition Map_keys :: "('k \<times> 'v) list \<Rightarrow> 'k list" where
  "Map_keys m = map fst m"

text \<open>\<^verbatim>\<open>new Map(pairs)\<close>: the pairs are set one after the other.\<close>

definition Map_of_pairs :: "('k \<times> 'v) list \<Rightarrow> ('k \<times> 'v) list" where
  "Map_of_pairs ps = foldl (\<lambda>m (k, v). Map_set m k v) [] ps"

section \<open>Type inference (parser.ts, inferType)\<close>

definition isDigit :: "char \<Rightarrow> bool" where
  "isDigit c \<longleftrightarrow> c \<in> set ''0123456789''"

definition isAlpha :: "char \<Rightarrow> bool" where
  "isAlpha c \<longleftrightarrow> c \<in> set ''abcdefghijklmnopqrstuvwxyzABCDEFGHIJKLMNOPQRSTUVWXYZ''"

text \<open>The class \<^verbatim>\<open>[a-zA-Z0-9._%+-]\<close>.\<close>

definition isLocalChar :: "char \<Rightarrow> bool" where
  "isLocalChar c \<longleftrightarrow> isAlpha c \<or> isDigit c \<or> c \<in> set ''._%+-''"

text \<open>The class \<^verbatim>\<open>[a-zA-Z0-9.-]\<close>.\<close>

definition isDomainChar :: "char \<Rightarrow> bool" where
  "isDomainChar c \<longleftrightarrow> isAlpha c \<or> isDigit c \<or> c \<in> set ''.-''"

text \<open>\<^verbatim>\<open>/^-?\d+$/\<close>\<close>

definition matchInteger :: "string \<Rightarrow> bool" where
  "matchInteger s =
     (let r = (if startsWith s ''-'' then tl s else s)
      in r \<noteq> [] \<and> list_all isDigit r)"

text \<open>\<^verbatim>\<open>/^-?\d+\.\d+$/\<close>: the first run of digits is maximal, since a dot is no digit.\<close>

definition matchNumber :: "string \<Rightarrow> bool" where
  "matchNumber s =
     (let r = (if startsWith s ''-'' then tl s else s);
          a = takeWhile isDigit r;
          b = dropWhile isDigit r
      in a \<noteq> [] \<and>
         (case b of
            [] \<Rightarrow> False
          | c # d \<Rightarrow> c = CHR ''.'' \<and> d \<noteq> [] \<and> list_all isDigit d))"

text \<open>\<^verbatim>\<open>/^https?:\/\//\<close>\<close>

definition matchUrl :: "string \<Rightarrow> bool" where
  "matchUrl s \<longleftrightarrow> startsWith s ''http://'' \<or> startsWith s ''https://''"

text \<open>
  \<^verbatim>\<open>[a-zA-Z0-9.-]+\.[a-zA-Z]{2,}$\<close>: the letters at the end hold no dot, so they are
  what follows the last dot, and what stands before that dot is the first group.
\<close>

definition matchDomain :: "string \<Rightarrow> bool" where
  "matchDomain d =
     (let r = rev d;
          tld = takeWhile (\<lambda>c. c \<noteq> CHR ''.'') r;
          front = dropWhile (\<lambda>c. c \<noteq> CHR ''.'') r
      in 2 \<le> length tld \<and> list_all isAlpha tld \<and>
         (case front of
            [] \<Rightarrow> False
          | dot # x \<Rightarrow> x \<noteq> [] \<and> list_all isDomainChar x))"

text \<open>\<^verbatim>\<open>/^[a-zA-Z0-9._%+-]+@[a-zA-Z0-9.-]+\.[a-zA-Z]{2,}$/\<close>: the first group holds no
  \<^verbatim>\<open>@\<close>, so it ends at the first one.\<close>

definition matchEmail :: "string \<Rightarrow> bool" where
  "matchEmail s =
     (let l = takeWhile isLocalChar s;
          rest = dropWhile isLocalChar s
      in l \<noteq> [] \<and>
         (case rest of
            [] \<Rightarrow> False
          | c # d \<Rightarrow> c = CHR ''@'' \<and> matchDomain d))"

text \<open>\<^verbatim>\<open>/^\d{1,3}\.\d{1,3}\.\d{1,3}\.\d{1,3}$/\<close>\<close>

definition matchIp :: "string \<Rightarrow> bool" where
  "matchIp s =
     (let parts = split_str (CHR ''.'') s
      in length parts = 4 \<and>
         list_all (\<lambda>p. 1 \<le> length p \<and> length p \<le> 3 \<and> list_all isDigit p) parts)"

definition inferType :: "string \<Rightarrow> string" where
  "inferType v =
     (if v = '''' then ''empty''
      else if v = ''true'' \<or> v = ''false'' then ''boolean''
      else if matchInteger v then ''integer''
      else if matchNumber v then ''number''
      else if matchUrl v then ''url''
      else if matchEmail v then ''email''
      else if matchIp v then ''ip address''
      else if str_includes v '':'' \<and> str_includes v ''//'' then ''connection string''
      else ''string'')"

section \<open>Case mismatches (parser.ts, findCaseMismatches)\<close>

record KeyPair =
  keyA :: string
  keyB :: string

text \<open>A string in a condition counts as true unless it is empty.\<close>

definition truthy :: "string \<Rightarrow> bool" where
  "truthy s \<longleftrightarrow> s \<noteq> []"

text \<open>The loop over \<open>keysA\<close>; \<open>mismatches\<close> is the array the source pushes to.\<close>

fun findLoop :: "(string \<times> string) list \<Rightarrow> string list \<Rightarrow> KeyPair list \<Rightarrow> KeyPair list" where
  "findLoop lowerKeysB [] mismatches = mismatches"
| "findLoop lowerKeysB (a # rest) mismatches =
     (let lowerA = toLowerCase a;
          matchingKeyB = Map_get lowerKeysB lowerA
      in findLoop lowerKeysB rest
           (case matchingKeyB of
              None \<Rightarrow> mismatches
            | Some b \<Rightarrow>
                if truthy b \<and> b \<noteq> a then mismatches @ [\<lparr>keyA = a, keyB = b\<rparr>]
                else mismatches))"

definition findCaseMismatches :: "string list \<Rightarrow> string list \<Rightarrow> KeyPair list" where
  "findCaseMismatches keysA keysB =
     (let lowerKeysB = Map_of_pairs (map (\<lambda>k. (toLowerCase k, k)) keysB)
      in findLoop lowerKeysB keysA [])"

section \<open>The parser (parser.ts, parseEnvFile and parseValue)\<close>

datatype severity = Error | Warning

record ParseError =
  err_line :: nat
  err_message :: string
  err_type :: severity

record EnvVariable =
  var_key :: string
  var_value :: string
  var_line :: nat
  var_comments :: "string list"
  var_hasQuotes :: bool
  var_quoteChar :: "char option"

record Duplicate =
  dup_key :: string
  dup_lines :: "nat list"

record ParsedEnvFile =
  variables :: "(string \<times> EnvVariable) list"
  duplicates :: "Duplicate list"
  errors :: "ParseError list"
  filePath :: string

text \<open>
  The file system the parser runs on: \<^verbatim>\<open>path.resolve\<close>, \<^verbatim>\<open>fs.existsSync\<close> and
  \<^verbatim>\<open>fs.readFileSync\<close>. Reading can throw (a directory, a file without read permission);
  the exception is the \<open>Inl\<close> of the result.
\<close>

datatype exn = ReadFailure

record Host =
  resolve :: "string \<Rightarrow> string"
  existsSync :: "string \<Rightarrow> bool"
  readFileSync :: "string \<Rightarrow> exn + string"

record ParsedValue =
  pv_value :: string
  pv_hasQuotes :: bool
  pv_quoteChar :: "char option"

definition parseValue :: "string \<Rightarrow> ParsedValue" where
  "parseValue rawValue =
     (let trimmed = trim rawValue
      in if (startsWith trimmed [dquote] \<and> endsWith trimmed [dquote]) \<or>
            (startsWith trimmed [squote] \<and> endsWith trimmed [squote])
         then
           (let quoteChar = hd trimmed;
                v = slice trimmed 1 (-1);
                v' = (if quoteChar = dquote
                      then replaceEscape (CHR ''t'') [TAB]
                             (replaceEscape (CHR ''n'') [LF]
                                (replaceEscape dquote [dquote] v))
                      else v)
            in \<lparr>pv_value = v', pv_hasQuotes = True, pv_quoteChar = Some quoteChar\<rparr>)
         else if startsWith trimmed [dquote] \<or> startsWith trimmed [squote]
         then \<lparr>pv_value = trimmed, pv_hasQuotes = False, pv_quoteChar = None\<rparr>
         else
           (let commentIndex = indexOf trimmed '' #''
            in if commentIndex \<noteq> -1
               then \<lparr>pv_value = trim (substring trimmed 0 commentIndex),
                      pv_hasQuotes = False, pv_quoteChar = None\<rparr>
               else \<lparr>pv_value = trimmed, pv_hasQuotes = False, pv_quoteChar = None\<rparr>))"

text \<open>
  \<^verbatim>\<open>line.match(/^([^=]+)=(.*)$/)\<close>. The first group holds no \<^verbatim>\<open>=\<close> and at least one
  character, so it is what stands before the first \<^verbatim>\<open>=\<close>; the second group runs to the
  end of the line and holds no line terminator, since \<^verbatim>\<open>.\<close> matches none and \<^verbatim>\<open>$\<close>
  (without the \<^verbatim>\<open>m\<close> flag) is the end of the string.
\<close>

definition matchAssignment :: "string \<Rightarrow> (string \<times> string) option" where
  "matchAssignment l =
     (let k = takeWhile (\<lambda>c. c \<noteq> CHR ''='') l;
          rest = dropWhile (\<lambda>c. c \<noteq> CHR ''='') l
      in if k = [] then None
         else (case rest of
                 [] \<Rightarrow> None
               | eq # v \<Rightarrow> if list_ex isLineTerminator v then None else Some (k, v)))"

text \<open>The mutable locals of \<^verbatim>\<open>parseEnvFile\<close>.\<close>

record PState =
  st_variables :: "(string \<times> EnvVariable) list"
  st_errors :: "ParseError list"
  st_keyLines :: "(string \<times> nat list) list"
  st_pendingComments :: "string list"

definition invalidSyntaxMessage :: "string \<Rightarrow> string" where
  "invalidSyntaxMessage trimmedLine =
     ''Invalid syntax: '' @ [dquote] @ substring trimmedLine 0 50 @
     (if length trimmedLine > 50 then ''...'' else []) @ [dquote]"

definition whitespaceMessage :: "string \<Rightarrow> string" where
  "whitespaceMessage rawKey = ''Whitespace in variable name: '' @ [dquote] @ rawKey @ [dquote]"

text \<open>The body of the loop over the lines, for the line \<open>l\<close> at index \<open>i\<close>.\<close>

definition processLine :: "nat \<Rightarrow> string \<Rightarrow> PState \<Rightarrow> PState" where
  "processLine i l st =
     (let lineNumber = i + 1;
          trimmedLine = trim l
      in if trimmedLine = [] then st\<lparr>st_pendingComments := []\<rparr>
         else if startsWith trimmedLine ''#''
         then st\<lparr>st_pendingComments := st_pendingComments st @ [trim (sliceFrom trimmedLine 1)]\<rparr>
         else
           (case matchAssignment l of
              None \<Rightarrow>
                st\<lparr>st_errors :=
                      (if trimmedLine \<noteq> []
                       then st_errors st @
                            [\<lparr>err_line = lineNumber,
                              err_message = invalidSyntaxMessage trimmedLine,
                              err_type = Warning\<rparr>]
                       else st_errors st),
                    st_pendingComments := []\<rparr>
            | Some (rawKey, rawValue) \<Rightarrow>
                (let key = trim rawKey;
                     errs = (if rawKey \<noteq> key
                             then st_errors st @
                                  [\<lparr>err_line = lineNumber,
                                    err_message = whitespaceMessage rawKey,
                                    err_type = Warning\<rparr>]
                             else st_errors st);
                     pv = parseValue rawValue;
                     keyLines = (case Map_get (st_keyLines st) key of
                                   Some ls \<Rightarrow> Map_set (st_keyLines st) key (ls @ [lineNumber])
                                 | None \<Rightarrow> Map_set (st_keyLines st) key [lineNumber]);
                     vars = Map_set (st_variables st) key
                              \<lparr>var_key = key, var_value = pv_value pv, var_line = lineNumber,
                               var_comments = st_pendingComments st,
                               var_hasQuotes = pv_hasQuotes pv,
                               var_quoteChar = pv_quoteChar pv\<rparr>
                 in \<lparr>st_variables = vars, st_errors = errs, st_keyLines = keyLines,
                     st_pendingComments = []\<rparr>)))"

fun parseLoop :: "nat \<Rightarrow> string list \<Rightarrow> PState \<Rightarrow> PState" where
  "parseLoop i [] st = st"
| "parseLoop i (l # ls) st = parseLoop (i + 1) ls (processLine i l st)"

definition duplicateMessage :: "string \<Rightarrow> nat list \<Rightarrow> string" where
  "duplicateMessage key ls =
     ''Duplicate variable: '' @ key @ '' (also defined on line'' @
     (if length ls > 2 then ''s'' else []) @ '' '' @
     join '', '' (map numToString (slice ls 0 (-1))) @ '')''"

text \<open>The loop over \<open>keyLines\<close> after the pass; the pair holds \<open>duplicates\<close> and \<open>errors\<close>.\<close>

fun collectDuplicates ::
  "(string \<times> nat list) list \<Rightarrow> Duplicate list \<times> ParseError list \<Rightarrow> Duplicate list \<times> ParseError list" where
  "collectDuplicates [] acc = acc"
| "collectDuplicates ((key, ls) # rest) (dups, errs) =
     collectDuplicates rest
       (if length ls > 1
        then (dups @ [\<lparr>dup_key = key, dup_lines = ls\<rparr>],
              errs @ [\<lparr>err_line = last ls, err_message = duplicateMessage key ls,
                       err_type = Warning\<rparr>])
        else (dups, errs))"

text \<open>What \<^verbatim>\<open>parseEnvFile\<close> does with the text it has read, from the locals as they
  are declared.\<close>

definition initialState :: PState where
  "initialState =
     \<lparr>st_variables = [], st_errors = [], st_keyLines = [], st_pendingComments = []\<rparr>"

definition parseContent :: "string \<Rightarrow> string \<Rightarrow> ParsedEnvFile" where
  "parseContent absolutePath content =
     (let ls = split_str LF content;
          st = parseLoop 0 ls initialState;
          (dups, errs) = collectDuplicates (st_keyLines st) ([], st_errors st)
      in \<lparr>variables = st_variables st, duplicates = dups, errors = errs,
          filePath = absolutePath\<rparr>)"

definition parseEnvFile :: "Host \<Rightarrow> string \<Rightarrow> exn + ParsedEnvFile" where
  "parseEnvFile h path =
     (let absolutePath = resolve h path
      in if \<not> existsSync h absolutePath
         then Inr \<lparr>variables = [], duplicates = [],
                   errors = [\<lparr>err_line = 0, err_message = ''File not found: '' @ path,
                              err_type = Error\<rparr>],
                   filePath = absolutePath\<rparr>
         else (case readFileSync h absolutePath of
                 Inl e \<Rightarrow> Inl e
               | Inr content \<Rightarrow> Inr (parseContent absolutePath content)))"

section \<open>The check command (commands/check.ts, checkCommand)\<close>

record MismatchEntry =
  envKey :: string
  exampleKey :: string

record WhitespaceIssue =
  ws_key :: string
  ws_issue :: string

record CheckResult =
  res_missing :: "string list"
  res_empty :: "string list"
  res_extra :: "string list"
  res_caseMismatches :: "MismatchEntry list"
  res_duplicates :: "Duplicate list"
  res_whitespaceIssues :: "WhitespaceIssue list"
  res_errors :: nat
  res_warnings :: nat

text \<open>
  \<^verbatim>\<open>(.+?)"\<close> at the start of a string: one character that is no line terminator, then as
  few more as possible up to a double quote.
\<close>

fun lazyUntilQuote :: "string \<Rightarrow> string \<Rightarrow> string option" where
  "lazyUntilQuote acc [] = None"
| "lazyUntilQuote acc (c # cs) =
     (if c = dquote then Some acc
      else if isLineTerminator c then None
      else lazyUntilQuote (acc @ [c]) cs)"

definition groupAt :: "string \<Rightarrow> string option" where
  "groupAt s =
     (case s of
        [] \<Rightarrow> None
      | c # cs \<Rightarrow> if isLineTerminator c then None else lazyUntilQuote [c] cs)"

definition variableNamePrefix :: string where
  "variableNamePrefix = ''variable name: '' @ [dquote]"

text \<open>\<^verbatim>\<open>message.match(/variable name: "(.+?)"/)\<close>: the leftmost match; the result is group 1.\<close>

fun matchVariableName :: "string \<Rightarrow> string option" where
  "matchVariableName [] = None"
| "matchVariableName (c # s) =
     (if startsWith (c # s) variableNamePrefix
      then (case groupAt (drop (length variableNamePrefix) (c # s)) of
              Some k \<Rightarrow> Some k
            | None \<Rightarrow> matchVariableName s)
      else matchVariableName s)"

text \<open>The bodies of the six loops of \<^verbatim>\<open>checkCommand\<close>, each on the result built so far.\<close>

definition pushCaseMismatch :: "CheckResult \<Rightarrow> KeyPair \<Rightarrow> CheckResult" where
  "pushCaseMismatch r m =
     r\<lparr>res_caseMismatches := res_caseMismatches r @ [\<lparr>envKey = keyA m, exampleKey = keyB m\<rparr>],
       res_errors := res_errors r + 1\<rparr>"

definition pushMissing :: "ParsedEnvFile \<Rightarrow> string set \<Rightarrow> CheckResult \<Rightarrow> string \<Rightarrow> CheckResult" where
  "pushMissing envParsed caseMismatchExampleKeys r key =
     (if \<not> Map_has (variables envParsed) key \<and> key \<notin> caseMismatchExampleKeys
      then r\<lparr>res_missing := res_missing r @ [key], res_errors := res_errors r + 1\<rparr>
      else r)"

definition pushEmpty :: "ParsedEnvFile \<Rightarrow> CheckResult \<Rightarrow> string \<Rightarrow> CheckResult" where
  "pushEmpty envParsed r key =
     (case Map_get (variables envParsed) key of
        None \<Rightarrow> r
      | Some envVar \<Rightarrow>
          if var_value envVar = []
          then r\<lparr>res_empty := res_empty r @ [key], res_warnings := res_warnings r + 1\<rparr>
          else r)"

definition pushExtra :: "ParsedEnvFile \<Rightarrow> string set \<Rightarrow> CheckResult \<Rightarrow> string \<Rightarrow> CheckResult" where
  "pushExtra exampleParsed caseMismatchEnvKeys r key =
     (if \<not> Map_has (variables exampleParsed) key \<and> key \<notin> caseMismatchEnvKeys
      then r\<lparr>res_extra := res_extra r @ [key], res_warnings := res_warnings r + 1\<rparr>
      else r)"

definition pushDuplicate :: "CheckResult \<Rightarrow> Duplicate \<Rightarrow> CheckResult" where
  "pushDuplicate r dup =
     r\<lparr>res_duplicates := res_duplicates r @ [dup], res_warnings := res_warnings r + 1\<rparr>"

definition pushWhitespace :: "CheckResult \<Rightarrow> ParseError \<Rightarrow> CheckResult" where
  "pushWhitespace r err =
     (if str_includes (err_message err) ''Whitespace''
      then (case matchVariableName (err_message err) of
              None \<Rightarrow> r
            | Some k \<Rightarrow>
                r\<lparr>res_whitespaceIssues :=
                     res_whitespaceIssues r @
                     [\<lparr>ws_key = k, ws_issue = ''leading/trailing whitespace''\<rparr>],
                   res_warnings := res_warnings r + 1\<rparr>)
      else r)"

text \<open>
  \<^verbatim>\<open>checkCommand\<close> from the two parsed documents to the result it prints: the part
  between the parsing of the files and the output. The example document comes first.
\<close>

definition checkCommand :: "ParsedEnvFile \<Rightarrow> ParsedEnvFile \<Rightarrow> CheckResult" where
  "checkCommand exampleParsed envParsed =
     (let exampleKeys = Map_keys (variables exampleParsed);
          envKeys = Map_keys (variables envParsed);
          result = \<lparr>res_missing = [], res_empty = [], res_extra = [], res_caseMismatches = [],
                    res_duplicates = [], res_whitespaceIssues = [],
                    res_errors = 0, res_warnings = 0\<rparr>;
          caseMismatches = findCaseMismatches envKeys exampleKeys;
          caseMismatchEnvKeys = set (map keyA caseMismatches);
          caseMismatchExampleKeys = set (map keyB caseMismatches);
          result = foldl pushCaseMismatch result caseMismatches;
          result = foldl (pushMissing envParsed caseMismatchExampleKeys) result exampleKeys;
          result = foldl (pushEmpty envParsed) result exampleKeys;
          result = foldl (pushExtra exampleParsed caseMismatchEnvKeys) result envKeys;
          result = foldl pushDuplicate result (duplicates envParsed);
          result = foldl pushWhitespace result (errors envParsed)
      in result)"



section \<open>The explain command (commands/explain.ts, explainCommand)\<close>

record ExplainResult =
  ex_variable :: string
  ex_found :: bool
  ex_purpose :: "string option"
  ex_comments :: "string list option"
  ex_exampleValue :: "string option"
  ex_inferredType :: "string option"

text \<open>
  \<^verbatim>\<open>explainCommand\<close> from the parsed example document to the result it prints. A field
  the source leaves unset is \<open>None\<close>.
\<close>

definition explainCommand :: "ParsedEnvFile \<Rightarrow> string \<Rightarrow> ExplainResult" where
  "explainCommand parsed varName =
     (let variable = Map_get (variables parsed) varName;
          result = \<lparr>ex_variable = varName, ex_found = (variable \<noteq> None),
                    ex_purpose = None, ex_comments = None, ex_exampleValue = None,
                    ex_inferredType = None\<rparr>
      in case variable of
           None \<Rightarrow> result
         | Some v \<Rightarrow>
             (let result = result\<lparr>ex_exampleValue := Some (var_value v),
                                   ex_inferredType := Some (inferType (var_value v)),
                                   ex_comments := Some (var_comments v)\<rparr>
              in if length (var_comments v) > 0
                 then result\<lparr>ex_purpose := Some (join '' '' (var_comments v))\<rparr>
                 else result))"

section \<open>The specification's wording of two operations\<close>

text \<open>
  The specification describes \<^verbatim>\<open>inferType\<close> as an ordered list of (predicate, tag) pairs
  evaluated until the first match, with \<^verbatim>\<open>string\<close> as the tag when none matches.
\<close>

definition inferTypeRules :: "((string \<Rightarrow> bool) \<times> string) list" where
  "inferTypeRules =
     [(\<lambda>v. v = [], ''empty''),
      (\<lambda>v. v = ''true'' \<or> v = ''false'', ''boolean''),
      (matchInteger, ''integer''),
      (matchNumber, ''number''),
      (matchUrl, ''url''),
      (matchEmail, ''email''),
      (matchIp, ''ip address''),
      (\<lambda>v. str_includes v '':'' \<and> str_includes v ''//'', ''connection string'')]"

fun firstMatch :: "((string \<Rightarrow> bool) \<times> string) list \<Rightarrow> string \<Rightarrow> string" where
  "firstMatch [] v = ''string''"
| "firstMatch ((p, t) # rules) v = (if p v then t else firstMatch rules v)"

definition inferType_spec :: "string \<Rightarrow> string" where
  "inferType_spec v = firstMatch inferTypeRules v"

text \<open>
  The specification's case-insensitive lookup of \<open>keysB\<close>: a lower-cased key is mapped
  to the original key, and the last key of \<open>keysB\<close> wins where two collide.
\<close>

definition caseInsensitiveLookup_spec :: "string list \<Rightarrow> string \<Rightarrow> string option" where
  "caseInsensitiveLookup_spec keysB l = find (\<lambda>k. toLowerCase k = l) (rev keysB)"

text \<open>The pairs the specification records for one key of \<open>keysA\<close>: none or one.\<close>

definition caseMismatch_spec :: "string list \<Rightarrow> string \<Rightarrow> KeyPair list" where
  "caseMismatch_spec keysB a =
     (case caseInsensitiveLookup_spec keysB (toLowerCase a) of
        None \<Rightarrow> []
      | Some b \<Rightarrow> if b \<noteq> a then [\<lparr>keyA = a, keyB = b\<rparr>] else [])"

section \<open>Auxiliary notions for the statements\<close>

text \<open>An example key that the env document holds with the empty string as its value.\<close>

definition isEmptyIn :: "ParsedEnvFile \<Rightarrow> string \<Rightarrow> bool" where
  "isEmptyIn env k =
     (case Map_get (variables env) k of
        None \<Rightarrow> False
      | Some v \<Rightarrow> var_value v = [])"

text \<open>The whitespace issues one diagnostic of the env document contributes: none or one.\<close>

definition whitespaceIssueOf :: "ParseError \<Rightarrow> WhitespaceIssue list" where
  "whitespaceIssueOf err =
     (if str_includes (err_message err) ''Whitespace''
      then (case matchVariableName (err_message err) of
              None \<Rightarrow> []
            | Some k \<Rightarrow> [\<lparr>ws_key = k, ws_issue = ''leading/trailing whitespace''\<rparr>])
      else [])"



text \<open>An example document whose one entry has no comment above it, and the
  specification's document for \<^verbatim>\<open>explain\<close>.\<close>

definition noCommentDoc :: ParsedEnvFile where
  "noCommentDoc = parseContent ''.env.example'' ''KEY=1''"

definition poolDoc :: ParsedEnvFile where
  "poolDoc = parseContent ''.env.example'' (''# Max connections'' @ [LF] @ ''DB_POOL_SIZE=10'')"

text \<open>The locals of the parser when the loop over the lines of a text has ended.\<close>

definition finalState :: "string \<Rightarrow> PState" where
  "finalState content = parseLoop 0 (split_str LF content) initialState"

definition allWarnings :: "ParseError list \<Rightarrow> bool" where
  "allWarnings es = list_all (\<lambda>e. err_type e = Warning) es"

text \<open>
  Three file systems: one in which every path exists and no read succeeds (a path that
  names a directory), one that holds nothing, and one that holds the one file
  \<^verbatim>\<open>/work/.env\<close> with a given text, where relative paths resolve against \<^verbatim>\<open>/work\<close>.
\<close>

definition directoryHost :: Host where
  "directoryHost =
     \<lparr>resolve = (\<lambda>p. p), existsSync = (\<lambda>p. True), readFileSync = (\<lambda>p. Inl ReadFailure)\<rparr>"

definition emptyHost :: Host where
  "emptyHost =
     \<lparr>resolve = (\<lambda>p. ''/work/'' @ p), existsSync = (\<lambda>p. False),
      readFileSync = (\<lambda>p. Inl ReadFailure)\<rparr>"

definition fileHost :: "string \<Rightarrow> Host" where
  "fileHost content =
     \<lparr>resolve = (\<lambda>p. ''/work/'' @ p), existsSync = (\<lambda>p. p = ''/work/.env''),
      readFileSync = (\<lambda>p. if p = ''/work/.env'' then Inr content else Inl ReadFailure)\<rparr>"

text \<open>A text with a line that is no assignment, a key with a leading blank and a
  repeated key.\<close>

definition garbled :: string where
  "garbled = ''not an assignment'' @ [LF] @ '' A=1'' @ [LF] @ ''A=2''"

text \<open>The text of the two lines \<^verbatim>\<open>KEY=value\<close> and \<^verbatim>\<open>KEY=value2\<close>, and an assignment line
  whose value is a lone double quote between blanks.\<close>

definition twoLines :: string where
  "twoLines = ''KEY=value'' @ [LF] @ ''KEY=value2''"

definition loneQuoteLine :: string where
  "loneQuoteLine = ''KEY= '' @ [dquote] @ '' ''"

text \<open>
  A line in which a line terminator stands somewhere after the first \<^verbatim>\<open>=\<close>: the second
  group of the assignment pattern cannot run to the end of such a line.
\<close>

definition terminatorAfterEq :: "string \<Rightarrow> bool" where
  "terminatorAfterEq l = list_ex isLineTerminator (tl (dropWhile (\<lambda>c. c \<noteq> CHR ''='') l))"

text \<open>A diagnostic for a line that is no assignment, by its message; and the diagnostics
  the loop body adds to those it found, for one line.\<close>

definition isInvalidSyntax :: "ParseError \<Rightarrow> bool" where
  "isInvalidSyntax e \<longleftrightarrow> startsWith (err_message e) ''Invalid syntax''"

definition newDiagnostics :: "nat \<Rightarrow> string \<Rightarrow> PState \<Rightarrow> ParseError list" where
  "newDiagnostics i l st = drop (length (st_errors st)) (st_errors (processLine i l st))"

text \<open>A line that the loop body treats as an assignment to a given key: it is neither
  blank nor a comment, it matches the assignment pattern, and its trimmed key is the
  given one.\<close>

definition assignsKey :: "string \<Rightarrow> string \<Rightarrow> bool" where
  "assignsKey l key =
     (trim l \<noteq> [] \<and> \<not> startsWith (trim l) ''#'' \<and>
      (case matchAssignment l of
         None \<Rightarrow> False
       | Some (rawKey, rawValue) \<Rightarrow> trim rawKey = key))"

text \<open>The specification's text with a comment, a blank line and an assignment.\<close>

definition noteText :: string where
  "noteText = ''# note'' @ [LF, LF] @ ''KEY=1''"

text \<open>An assignment whose key holds a carriage return, before the \<^verbatim>\<open>=\<close>.\<close>

definition crKeyLine :: string where
  "crKeyLine = ''A'' @ [CR] @ ''B=1''"

section \<open>The ordered map\<close>

lemma map_of_Map_set: "map_of (Map_set m k v) = (map_of m)(k \<mapsto> v)"
  by (induction m) (auto simp: fun_eq_iff)

lemma Map_of_pairs_snoc: "Map_of_pairs (ps @ [(k, v)]) = Map_set (Map_of_pairs ps) k v"
  by (simp add: Map_of_pairs_def)

lemma Map_get_lower:
  "Map_get (Map_of_pairs (map (\<lambda>k. (f k, k)) ks)) l = find (\<lambda>k. f k = l) (rev ks)"
proof (induction ks rule: rev_induct)
  case Nil
  then show ?case by (simp add: Map_of_pairs_def Map_get_def)
next
  case (snoc x xs)
  then show ?case by (simp add: Map_of_pairs_snoc Map_get_def map_of_Map_set)
qed

section \<open>Type inference\<close>

text \<open>
  Claim C4. \<^verbatim>\<open>inferType\<close> is the first-match evaluation of its ordered predicates: it
  returns the tag of the first rule of the specification's list whose predicate holds,
  and \<^verbatim>\<open>string\<close> when none does. In particular \<^verbatim>\<open>inferType("0")\<close> is \<^verbatim>\<open>integer\<close>,
  \<^verbatim>\<open>inferType("true")\<close> is \<^verbatim>\<open>boolean\<close> and \<^verbatim>\<open>inferType("192.168.1.1")\<close> is
  \<^verbatim>\<open>ip address\<close>.
\<close>

theorem inferType_first_match:
  "inferType v = inferType_spec v \<and>
   inferType ''0'' = ''integer'' \<and> inferType ''true'' = ''boolean'' \<and>
   inferType ''192.168.1.1'' = ''ip address''"
proof -
  have a: "inferType v = inferType_spec v"
    by (simp add: inferType_def inferType_spec_def inferTypeRules_def)
  have b: "inferType ''0'' = ''integer''" by code_simp
  have c: "inferType ''true'' = ''boolean''" by code_simp
  have d: "inferType ''192.168.1.1'' = ''ip address''" by code_simp
  from a b c d show ?thesis by simp
qed

section \<open>Case mismatches\<close>

lemma find_Some_holds: "find P xs = Some x \<Longrightarrow> P x"
  by (induction xs) (auto split: if_splits)

text \<open>
  The source tests the looked-up key for truth before comparing it. The test never
  decides: an empty original key has an empty lower-cased form, which only an empty
  key of \<open>keysA\<close> looks up.
\<close>

lemma lookup_truthy:
  assumes "caseInsensitiveLookup_spec keysB (toLowerCase a) = Some b"
  shows "(truthy b \<and> b \<noteq> a) = (b \<noteq> a)"
proof -
  have "toLowerCase b = toLowerCase a"
    using assms find_Some_holds [of "\<lambda>k. toLowerCase k = toLowerCase a" "rev keysB" b]
    by (simp add: caseInsensitiveLookup_spec_def)
  then have "b = [] \<Longrightarrow> a = []"
    by (simp add: toLowerCase_def)
  then show ?thesis
    by (auto simp: truthy_def)
qed

lemma findLoop_acc:
  "findLoop (Map_of_pairs (map (\<lambda>k. (toLowerCase k, k)) keysB)) keysA acc =
     acc @ concat (map (caseMismatch_spec keysB) keysA)"
proof (induction keysA arbitrary: acc)
  case Nil
  show ?case by simp
next
  case (Cons a keysA)
  show ?case
  proof (cases "caseInsensitiveLookup_spec keysB (toLowerCase a)")
    case None
    then show ?thesis
      using Cons.IH
      by (simp add: Map_get_lower caseMismatch_spec_def caseInsensitiveLookup_spec_def)
  next
    case (Some b)
    then show ?thesis
      using Cons.IH lookup_truthy [OF Some]
      by (simp add: Map_get_lower caseMismatch_spec_def caseInsensitiveLookup_spec_def)
  qed
qed

lemma findCaseMismatches_concat:
  "findCaseMismatches keysA keysB = concat (map (caseMismatch_spec keysB) keysA)"
  by (simp add: findCaseMismatches_def findLoop_acc)

text \<open>
  Claim C6. For all key lists, \<^verbatim>\<open>findCaseMismatches\<close> walks \<open>keysA\<close> in order and records
  the pair \<open>(keyA, keyB)\<close> exactly when the case-insensitive lookup built from \<open>keysB\<close>
  maps the lower-cased \<open>keyA\<close> to an original key \<open>keyB\<close> that differs from \<open>keyA\<close>. So
  \<^verbatim>\<open>["db_url"]\<close> against \<^verbatim>\<open>["DB_URL"]\<close> gives the one pair, and \<^verbatim>\<open>["DB_URL"]\<close> against
  itself gives none.
\<close>

theorem findCaseMismatches_pairs:
  "findCaseMismatches keysA keysB = concat (map (caseMismatch_spec keysB) keysA) \<and>
   findCaseMismatches [''db_url''] [''DB_URL''] = [\<lparr>keyA = ''db_url'', keyB = ''DB_URL''\<rparr>] \<and>
   findCaseMismatches [''DB_URL''] [''DB_URL''] = []"
proof -
  have a: "findCaseMismatches keysA keysB = concat (map (caseMismatch_spec keysB) keysA)"
    by (rule findCaseMismatches_concat)
  have b: "findCaseMismatches [''db_url''] [''DB_URL''] = [\<lparr>keyA = ''db_url'', keyB = ''DB_URL''\<rparr>]"
    by code_simp
  have c: "findCaseMismatches [''DB_URL''] [''DB_URL''] = []"
    by code_simp
  from a b c show ?thesis by simp
qed

section \<open>The check command\<close>

lemma foldl_pushCaseMismatch:
  "foldl pushCaseMismatch r ms =
     r\<lparr>res_caseMismatches :=
         res_caseMismatches r @ map (\<lambda>m. \<lparr>envKey = keyA m, exampleKey = keyB m\<rparr>) ms,
       res_errors := res_errors r + length ms\<rparr>"
  by (induction ms arbitrary: r) (simp_all add: pushCaseMismatch_def)

lemma foldl_pushMissing:
  "foldl (pushMissing env S) r ks =
     r\<lparr>res_missing :=
         res_missing r @ filter (\<lambda>k. \<not> Map_has (variables env) k \<and> k \<notin> S) ks,
       res_errors :=
         res_errors r + length (filter (\<lambda>k. \<not> Map_has (variables env) k \<and> k \<notin> S) ks)\<rparr>"
  by (induction ks arbitrary: r) (simp_all add: pushMissing_def)

lemma foldl_pushEmpty:
  "foldl (pushEmpty env) r ks =
     r\<lparr>res_empty := res_empty r @ filter (isEmptyIn env) ks,
       res_warnings := res_warnings r + length (filter (isEmptyIn env) ks)\<rparr>"
  by (induction ks arbitrary: r) (auto simp: pushEmpty_def isEmptyIn_def split: option.splits)

lemma foldl_pushExtra:
  "foldl (pushExtra ex S) r ks =
     r\<lparr>res_extra :=
         res_extra r @ filter (\<lambda>k. \<not> Map_has (variables ex) k \<and> k \<notin> S) ks,
       res_warnings :=
         res_warnings r + length (filter (\<lambda>k. \<not> Map_has (variables ex) k \<and> k \<notin> S) ks)\<rparr>"
  by (induction ks arbitrary: r) (simp_all add: pushExtra_def)

lemma foldl_pushDuplicate:
  "foldl pushDuplicate r ds =
     r\<lparr>res_duplicates := res_duplicates r @ ds,
       res_warnings := res_warnings r + length ds\<rparr>"
  by (induction ds arbitrary: r) (simp_all add: pushDuplicate_def)

lemma foldl_pushWhitespace:
  "foldl pushWhitespace r es =
     r\<lparr>res_whitespaceIssues := res_whitespaceIssues r @ concat (map whitespaceIssueOf es),
       res_warnings := res_warnings r + length (concat (map whitespaceIssueOf es))\<rparr>"
  by (induction es arbitrary: r)
     (auto simp: pushWhitespace_def whitespaceIssueOf_def split: option.splits)

lemma checkCommand_closed:
  "checkCommand ex env =
     (let exampleKeys = Map_keys (variables ex);
          envKeys = Map_keys (variables env);
          cm = findCaseMismatches envKeys exampleKeys;
          missing = filter (\<lambda>k. \<not> Map_has (variables env) k \<and> k \<notin> set (map keyB cm)) exampleKeys;
          empty = filter (isEmptyIn env) exampleKeys;
          extra = filter (\<lambda>k. \<not> Map_has (variables ex) k \<and> k \<notin> set (map keyA cm)) envKeys;
          ws = concat (map whitespaceIssueOf (errors env))
      in \<lparr>res_missing = missing, res_empty = empty, res_extra = extra,
          res_caseMismatches = map (\<lambda>m. \<lparr>envKey = keyA m, exampleKey = keyB m\<rparr>) cm,
          res_duplicates = duplicates env, res_whitespaceIssues = ws,
          res_errors = length cm + length missing,
          res_warnings = length empty + length extra + length (duplicates env) + length ws\<rparr>)"
  unfolding checkCommand_def Let_def
  by (simp add: foldl_pushCaseMismatch foldl_pushMissing foldl_pushEmpty foldl_pushExtra
      foldl_pushDuplicate foldl_pushWhitespace)


lemma Map_has_get: "Map_has m k \<longleftrightarrow> Map_get m k \<noteq> None"
  by (simp add: Map_has_def Map_get_def)

text \<open>
  Claim C1. For all pairs of parsed documents, the case mismatches of the result pair
  an env key with an example key; the \<open>missing\<close> list holds, in the example document's
  order, exactly the example keys that have no exact-case entry in the env document
  and are not the example side of a case-mismatch pair; the \<open>extra\<close> list holds, in the
  env document's order, exactly the env keys that have no exact-case entry in the
  example document and are not the env side of a case-mismatch pair.
\<close>

theorem check_missing_extra:
  "res_caseMismatches (checkCommand ex env) =
     map (\<lambda>m. \<lparr>envKey = keyA m, exampleKey = keyB m\<rparr>)
       (findCaseMismatches (Map_keys (variables env)) (Map_keys (variables ex))) \<and>
   res_missing (checkCommand ex env) =
     filter (\<lambda>k. Map_get (variables env) k = None \<and>
                 k \<notin> exampleKey ` set (res_caseMismatches (checkCommand ex env)))
       (Map_keys (variables ex)) \<and>
   res_extra (checkCommand ex env) =
     filter (\<lambda>k. Map_get (variables ex) k = None \<and>
                 k \<notin> envKey ` set (res_caseMismatches (checkCommand ex env)))
       (Map_keys (variables env))"
  by (simp add: checkCommand_closed Let_def Map_has_get image_image)





section \<open>The explain command\<close>

text \<open>
  The claim C5 as stated fails where the entry has no comment above it: the entry is
  found and its comment list is empty, yet \<open>purpose\<close> is not the empty concatenation;
  the field is left unset.
\<close>

theorem explain_purpose_counterexample:
  "ex_found (explainCommand noCommentDoc ''KEY'') \<and>
   ex_comments (explainCommand noCommentDoc ''KEY'') = Some [] \<and>
   ex_purpose (explainCommand noCommentDoc ''KEY'') \<noteq> Some (join '' '' [])"
  by code_simp

text \<open>
  Claim C5, amended. For every example document and key, \<^verbatim>\<open>explain\<close> looks the key up by
  exact case in the example document only. If it is absent the result has
  \<open>found = false\<close> and no other field populated. If it is present the result has
  \<open>found = true\<close>, \<open>exampleValue\<close> the stored value, \<open>inferredType\<close> the inferred type of
  that value, \<open>comments\<close> the ordered comment list, and \<open>purpose\<close> the space-joined
  concatenation of the comment lines when there is at least one; with no comment line
  \<open>purpose\<close> is not populated.
\<close>

theorem explain_result:
  "explainCommand parsed k =
     (case Map_get (variables parsed) k of
        None \<Rightarrow>
          \<lparr>ex_variable = k, ex_found = False, ex_purpose = None, ex_comments = None,
           ex_exampleValue = None, ex_inferredType = None\<rparr>
      | Some v \<Rightarrow>
          \<lparr>ex_variable = k, ex_found = True,
           ex_purpose = (if var_comments v = [] then None
                         else Some (join '' '' (var_comments v))),
           ex_comments = Some (var_comments v),
           ex_exampleValue = Some (var_value v),
           ex_inferredType = Some (inferType (var_value v))\<rparr>)"
  by (simp add: explainCommand_def Let_def split: option.splits)

lemma poolDoc_entry:
  "Map_get (variables poolDoc) ''DB_POOL_SIZE'' =
     Some \<lparr>var_key = ''DB_POOL_SIZE'', var_value = ''10'', var_line = 2,
           var_comments = [''Max connections''], var_hasQuotes = False,
           var_quoteChar = None\<rparr>"
  by code_simp

lemma poolDoc_absent: "Map_get (variables poolDoc) ''db_pool_size'' = None"
  by code_simp

lemma inferType_10: "inferType ''10'' = ''integer''"
  by code_simp

text \<open>The specification's example, and a key written in another case.\<close>

theorem explain_result_witness:
  "explainCommand poolDoc ''DB_POOL_SIZE'' =
     \<lparr>ex_variable = ''DB_POOL_SIZE'', ex_found = True,
      ex_purpose = Some ''Max connections'', ex_comments = Some [''Max connections''],
      ex_exampleValue = Some ''10'', ex_inferredType = Some ''integer''\<rparr> \<and>
   explainCommand poolDoc ''db_pool_size'' =
     \<lparr>ex_variable = ''db_pool_size'', ex_found = False, ex_purpose = None,
      ex_comments = None, ex_exampleValue = None, ex_inferredType = None\<rparr>"
  using explain_result [of poolDoc "''DB_POOL_SIZE''"] explain_result [of poolDoc "''db_pool_size''"]
  by (simp add: poolDoc_entry poolDoc_absent inferType_10)

section \<open>The parser: missing files and malformed content\<close>

lemma parseContent_variables: "variables (parseContent a content) = st_variables (finalState content)"
  by (simp add: parseContent_def finalState_def Let_def case_prod_beta)

lemma parseContent_duplicates:
  "duplicates (parseContent a content) =
     fst (collectDuplicates (st_keyLines (finalState content)) ([], st_errors (finalState content)))"
  by (simp add: parseContent_def finalState_def Let_def case_prod_beta)

lemma parseContent_errors:
  "errors (parseContent a content) =
     snd (collectDuplicates (st_keyLines (finalState content)) ([], st_errors (finalState content)))"
  by (simp add: parseContent_def finalState_def Let_def case_prod_beta)

lemma parseContent_filePath: "filePath (parseContent a content) = a"
  by (simp add: parseContent_def Let_def case_prod_beta)

lemma processLine_allWarnings:
  "allWarnings (st_errors st) \<Longrightarrow> allWarnings (st_errors (processLine i l st))"
  by (auto simp: processLine_def allWarnings_def Let_def split: option.splits)

lemma parseLoop_allWarnings:
  "allWarnings (st_errors st) \<Longrightarrow> allWarnings (st_errors (parseLoop i ls st))"
  by (induction ls arbitrary: i st) (simp_all add: processLine_allWarnings)

lemma collectDuplicates_allWarnings:
  "allWarnings errs \<Longrightarrow> allWarnings (snd (collectDuplicates kl (dups, errs)))"
  by (induction kl arbitrary: dups errs) (auto simp: allWarnings_def)

lemma parseContent_allWarnings: "allWarnings (errors (parseContent a content))"
proof -
  have "allWarnings (st_errors (finalState content))"
    unfolding finalState_def
    by (rule parseLoop_allWarnings) (simp add: allWarnings_def initialState_def)
  then show ?thesis
    unfolding parseContent_errors by (rule collectDuplicates_allWarnings)
qed

text \<open>
  The claim C8 as stated fails for a path that exists and cannot be read (a directory,
  say): the parser checks existence only, and the exception of the read leaves
  \<^verbatim>\<open>parseEnvFile\<close>.
\<close>

theorem parse_unreadable_counterexample:
  "parseEnvFile directoryHost ''/tmp'' = Inl ReadFailure"
  by (simp add: parseEnvFile_def directoryHost_def)

text \<open>
  Claim C8, amended. For every missing input path (one whose resolved form does not
  exist) \<^verbatim>\<open>parseEnvFile\<close> does not raise: it returns a document with no entry, no
  duplicate and exactly one diagnostic, of error severity, on line 0, with the message
  "File not found: " followed by the path as given. For every path that exists and can
  be read, whatever the content, it does not raise and every diagnostic of the
  document has warning severity.
\<close>

theorem parse_missing_or_readable:
  "(\<not> existsSync h (resolve h p) \<longrightarrow>
      parseEnvFile h p =
        Inr \<lparr>variables = [], duplicates = [],
             errors = [\<lparr>err_line = 0, err_message = ''File not found: '' @ p, err_type = Error\<rparr>],
             filePath = resolve h p\<rparr>) \<and>
   (existsSync h (resolve h p) \<and> readFileSync h (resolve h p) = Inr content \<longrightarrow>
      parseEnvFile h p = Inr (parseContent (resolve h p) content) \<and>
      allWarnings (errors (parseContent (resolve h p) content)))"
  by (simp add: parseEnvFile_def parseContent_allWarnings)

lemma garbled_errors:
  "errors (parseContent ''/work/.env'' garbled) =
     [\<lparr>err_line = 1,
       err_message = ''Invalid syntax: '' @ [dquote] @ ''not an assignment'' @ [dquote],
       err_type = Warning\<rparr>,
      \<lparr>err_line = 2,
       err_message = ''Whitespace in variable name: '' @ [dquote] @ '' A'' @ [dquote],
       err_type = Warning\<rparr>,
      \<lparr>err_line = 3, err_message = ''Duplicate variable: A (also defined on line 2)'',
       err_type = Warning\<rparr>]"
  by code_simp

theorem parse_missing_or_readable_witness:
  "parseEnvFile emptyHost ''.env'' =
     Inr \<lparr>variables = [], duplicates = [],
          errors = [\<lparr>err_line = 0, err_message = ''File not found: .env'', err_type = Error\<rparr>],
          filePath = ''/work/.env''\<rparr> \<and>
   parseEnvFile (fileHost garbled) ''.env'' = Inr (parseContent ''/work/.env'' garbled) \<and>
   allWarnings (errors (parseContent ''/work/.env'' garbled)) \<and>
   length (errors (parseContent ''/work/.env'' garbled)) = 3"
  using parse_missing_or_readable [of emptyHost "''.env''"]
    parse_missing_or_readable [of "fileHost garbled" "''.env''" garbled]
  by (simp add: emptyHost_def fileHost_def garbled_errors)

section \<open>The parser: a repeated key\<close>

lemma Map_get_Map_set: "Map_get (Map_set m k v) k' = (if k' = k then Some v else Map_get m k')"
  by (simp add: Map_get_def map_of_Map_set)

lemma twoLines_parsed:
  "content = twoLines \<or> content = twoLines @ [LF] \<Longrightarrow>
   parseContent a content =
     \<lparr>variables =
        [(''KEY'', \<lparr>var_key = ''KEY'', var_value = ''value2'', var_line = 2, var_comments = [],
                    var_hasQuotes = False, var_quoteChar = None\<rparr>)],
      duplicates = [\<lparr>dup_key = ''KEY'', dup_lines = [1, 2]\<rparr>],
      errors = [\<lparr>err_line = 2,
                 err_message = ''Duplicate variable: KEY (also defined on line 1)'',
                 err_type = Warning\<rparr>],
      filePath = a\<rparr>"
proof (elim disjE)
  assume "content = twoLines"
  then show ?thesis by (simp only:) code_simp
next
  assume "content = twoLines @ [LF]"
  then show ?thesis by (simp only:) code_simp
qed

text \<open>
  Claim C2. For every file whose text is the two lines \<^verbatim>\<open>KEY=value\<close> and \<^verbatim>\<open>KEY=value2\<close>
  (with or without a final line feed), \<^verbatim>\<open>parseEnvFile\<close> returns a document with exactly
  one entry, for \<^verbatim>\<open>KEY\<close>, whose value is \<^verbatim>\<open>value2\<close> and whose line is 2; the duplicates
  give \<^verbatim>\<open>KEY\<close> the lines 1 and 2 in order; and there is exactly one diagnostic, a warning
  for the duplicate that names every line of the key but the last.
\<close>

theorem parse_duplicate_key:
  assumes "existsSync h (resolve h p)"
    and "readFileSync h (resolve h p) = Inr content"
    and "content = twoLines \<or> content = twoLines @ [LF]"
  shows "parseEnvFile h p =
     Inr \<lparr>variables =
            [(''KEY'', \<lparr>var_key = ''KEY'', var_value = ''value2'', var_line = 2,
                        var_comments = [], var_hasQuotes = False, var_quoteChar = None\<rparr>)],
          duplicates = [\<lparr>dup_key = ''KEY'', dup_lines = [1, 2]\<rparr>],
          errors = [\<lparr>err_line = 2,
                     err_message = ''Duplicate variable: KEY (also defined on line 1)'',
                     err_type = Warning\<rparr>],
          filePath = resolve h p\<rparr>"
  using assms(1,2) twoLines_parsed [OF assms(3), of "resolve h p"]
  by (simp add: parseEnvFile_def)

theorem parse_duplicate_key_witness:
  "parseEnvFile (fileHost twoLines) ''.env'' =
     Inr \<lparr>variables =
            [(''KEY'', \<lparr>var_key = ''KEY'', var_value = ''value2'', var_line = 2,
                        var_comments = [], var_hasQuotes = False, var_quoteChar = None\<rparr>)],
          duplicates = [\<lparr>dup_key = ''KEY'', dup_lines = [1, 2]\<rparr>],
          errors = [\<lparr>err_line = 2,
                     err_message = ''Duplicate variable: KEY (also defined on line 1)'',
                     err_type = Warning\<rparr>],
          filePath = ''/work/.env''\<rparr>"
  using parse_duplicate_key [of "fileHost twoLines" "''.env''" twoLines]
  by (simp add: fileHost_def)

section \<open>The parser: a value that is a lone quote\<close>

lemma parseValue_lone_quote:
  assumes "trim rawValue = [q]" and "q = dquote \<or> q = squote"
  shows "parseValue rawValue = \<lparr>pv_value = [], pv_hasQuotes = True, pv_quoteChar = Some q\<rparr>"
  using assms
  by (auto simp: parseValue_def startsWith_def endsWith_def slice_def Let_def)

text \<open>
  Claim C10. For every assignment line whose raw value, trimmed, is one quote character
  (double or single), \<^verbatim>\<open>parseValue\<close> takes the quoted branch: the value is empty, the
  value counts as quoted and the quote character is recorded; it is not the
  unterminated-quote result that passes the text through. The entry stored for the
  line carries these fields.
\<close>

theorem lone_quote_is_quoted:
  assumes "trim rawValue = [q]" and "q = dquote \<or> q = squote"
    and "trim l \<noteq> []" and "\<not> startsWith (trim l) ''#''"
    and "matchAssignment l = Some (rawKey, rawValue)"
  shows "parseValue rawValue = \<lparr>pv_value = [], pv_hasQuotes = True, pv_quoteChar = Some q\<rparr> \<and>
     parseValue rawValue \<noteq>
       \<lparr>pv_value = trim rawValue, pv_hasQuotes = False, pv_quoteChar = None\<rparr> \<and>
     Map_get (st_variables (processLine i l st)) (trim rawKey) =
       Some \<lparr>var_key = trim rawKey, var_value = [], var_line = i + 1,
             var_comments = st_pendingComments st, var_hasQuotes = True,
             var_quoteChar = Some q\<rparr>"
  using assms(3-5) parseValue_lone_quote [OF assms(1,2)]
  by (simp add: processLine_def Let_def Map_get_Map_set)

theorem lone_quote_is_quoted_witness:
  "parseValue ('' '' @ [dquote] @ '' '') =
     \<lparr>pv_value = [], pv_hasQuotes = True, pv_quoteChar = Some dquote\<rparr> \<and>
   Map_get (st_variables (processLine 0 loneQuoteLine initialState)) ''KEY'' =
     Some \<lparr>var_key = ''KEY'', var_value = [], var_line = 1, var_comments = [],
           var_hasQuotes = True, var_quoteChar = Some dquote\<rparr>"
proof -
  have 1: "trim ('' '' @ [dquote] @ '' '') = [dquote]" by code_simp
  have 3: "trim loneQuoteLine \<noteq> []" by code_simp
  have 4: "\<not> startsWith (trim loneQuoteLine) ''#''" by code_simp
  have 5: "matchAssignment loneQuoteLine = Some (''KEY'', '' '' @ [dquote] @ '' '')" by code_simp
  have 6: "trim ''KEY'' = ''KEY''" by code_simp
  show ?thesis
    using lone_quote_is_quoted [OF 1 _ 3 4 5, of 0 initialState]
    by (simp add: 6 initialState_def)
qed

section \<open>The parser: lines that are no assignment\<close>

lemma substring_take: "substring s 0 (int n) = take n s"
  by (simp add: substring_def Let_def)

lemma invalidSyntaxMessage_shape:
  "invalidSyntaxMessage t =
     ''Invalid syntax: '' @ [dquote] @ take 50 t @ (if length t > 50 then ''...'' else []) @ [dquote]"
  using substring_take [of t 50] by (simp add: invalidSyntaxMessage_def)

lemma dropWhile_eq_Nil_noeq: "dropWhile (\<lambda>c. c \<noteq> x) cs = [] \<longleftrightarrow> x \<notin> set cs"
  by (induction cs) auto

lemma takeWhile_eq_Nil_hd: "takeWhile (\<lambda>c. c \<noteq> x) l = [] \<longleftrightarrow> l = [] \<or> hd l = x"
  by (cases l) auto

lemma startsWith_single: "startsWith l [x] \<longleftrightarrow> l \<noteq> [] \<and> hd l = x"
  by (cases l) (auto simp: startsWith_def)

lemma matchAssignment_None_iff:
  "matchAssignment l = None \<longleftrightarrow>
     CHR ''='' \<notin> set l \<or> startsWith l ''='' \<or>
     list_ex isLineTerminator (tl (dropWhile (\<lambda>c. c \<noteq> CHR ''='') l))"
proof (cases "takeWhile (\<lambda>c. c \<noteq> CHR ''='') l = []")
  case True
  then have "l = [] \<or> hd l = CHR ''=''"
    by (simp only: takeWhile_eq_Nil_hd)
  then have r: "CHR ''='' \<notin> set l \<or> startsWith l ''=''"
    by (auto simp only: startsWith_single set_simps empty_iff)
  have "matchAssignment l = None"
    using True by (simp add: matchAssignment_def Let_def)
  with r show ?thesis by blast
next
  case False
  then have ns: "\<not> startsWith l ''=''"
    by (simp only: takeWhile_eq_Nil_hd startsWith_single) blast
  show ?thesis
  proof (cases "dropWhile (\<lambda>c. c \<noteq> CHR ''='') l")
    case Nil
    then have r: "CHR ''='' \<notin> set l"
      using dropWhile_eq_Nil_noeq [of "CHR ''=''" l] by blast
    have "matchAssignment l = None"
      unfolding matchAssignment_def Let_def Nil using False by simp
    with r show ?thesis by blast
  next
    case (Cons e v)
    then have r: "CHR ''='' \<in> set l"
      using dropWhile_eq_Nil_noeq [of "CHR ''=''" l] by auto
    have m: "matchAssignment l = (if list_ex isLineTerminator v then None else Some (takeWhile (\<lambda>c. c \<noteq> CHR ''='') l, v))"
      unfolding matchAssignment_def Let_def Cons using False by simp
    have t: "tl (dropWhile (\<lambda>c. c \<noteq> CHR ''='') l) = v"
      unfolding Cons by simp
    show ?thesis
      unfolding m t using r ns by (cases "list_ex isLineTerminator v") simp_all
  qed
qed

lemma matchAssignment_None_plain:
  "\<not> terminatorAfterEq l \<Longrightarrow>
   matchAssignment l = None \<longleftrightarrow> CHR ''='' \<notin> set l \<or> startsWith l ''=''"
  by (simp add: matchAssignment_None_iff terminatorAfterEq_def)

lemma processLine_no_match:
  assumes "trim l \<noteq> []" and "\<not> startsWith (trim l) ''#''" and "matchAssignment l = None"
  shows "processLine i l st =
     st\<lparr>st_errors := st_errors st @
          [\<lparr>err_line = i + 1, err_message = invalidSyntaxMessage (trim l), err_type = Warning\<rparr>],
        st_pendingComments := []\<rparr>"
  using assms by (simp add: processLine_def Let_def)

lemma processLine_match_errors:
  assumes "trim l \<noteq> []" and "\<not> startsWith (trim l) ''#''"
    and "matchAssignment l = Some (rawKey, rawValue)"
  shows "st_errors (processLine i l st) =
     st_errors st @
     (if rawKey \<noteq> trim rawKey
      then [\<lparr>err_line = i + 1, err_message = whitespaceMessage rawKey, err_type = Warning\<rparr>]
      else [])"
  using assms by (simp add: processLine_def Let_def)

lemma invalid_is_invalid:
  "isInvalidSyntax \<lparr>err_line = n, err_message = invalidSyntaxMessage t, err_type = s\<rparr>"
  by (simp add: isInvalidSyntax_def invalidSyntaxMessage_def startsWith_def)

lemma whitespace_not_invalid:
  "\<not> isInvalidSyntax \<lparr>err_line = n, err_message = whitespaceMessage k, err_type = s\<rparr>"
  by (simp add: isInvalidSyntax_def whitespaceMessage_def startsWith_def)

text \<open>
  Claim C3, amended. For every input line in which no line terminator stands after the
  first \<^verbatim>\<open>=\<close> (a carriage return; in the program also U+2028 and U+2029), and whose trimmed
  form is not empty and does not start with \<^verbatim>\<open>#\<close>, the loop body only adds diagnostics,
  and it adds an "Invalid syntax" warning if and only if the line contains no \<^verbatim>\<open>=\<close> or
  begins with \<^verbatim>\<open>=\<close> (an empty key). Such a line adds exactly that one warning, on its
  line number, with the trimmed line cut to 50 characters and followed by an ellipsis
  when it was longer; it produces no entry, records no line for a key, and clears the
  pending comments. A carriage return before the first \<^verbatim>\<open>=\<close> does not matter: it is part
  of the key.
\<close>

theorem invalid_syntax_iff:
  assumes "trim l \<noteq> []" and "\<not> startsWith (trim l) ''#''"
    and "\<not> terminatorAfterEq l"
  shows "st_errors (processLine i l st) = st_errors st @ newDiagnostics i l st \<and>
     list_ex isInvalidSyntax (newDiagnostics i l st) =
       (CHR ''='' \<notin> set l \<or> startsWith l ''='') \<and>
     (CHR ''='' \<notin> set l \<or> startsWith l ''='' \<longrightarrow>
        processLine i l st =
          st\<lparr>st_errors := st_errors st @
               [\<lparr>err_line = i + 1,
                 err_message =
                   ''Invalid syntax: '' @ [dquote] @ take 50 (trim l) @
                   (if length (trim l) > 50 then ''...'' else []) @ [dquote],
                 err_type = Warning\<rparr>],
             st_pendingComments := []\<rparr>)"
proof (cases "matchAssignment l")
  case None
  note p = processLine_no_match [OF assms(1,2) None, of i st]
  have c: "CHR ''='' \<notin> set l \<or> startsWith l ''=''"
    using None matchAssignment_None_plain [OF assms(3)] by simp
  have n: "newDiagnostics i l st =
      [\<lparr>err_line = i + 1, err_message = invalidSyntaxMessage (trim l), err_type = Warning\<rparr>]"
    by (simp add: newDiagnostics_def p)
  have a: "st_errors (processLine i l st) = st_errors st @ newDiagnostics i l st"
    by (simp add: n) (simp add: p)
  have b: "list_ex isInvalidSyntax (newDiagnostics i l st)"
    by (simp add: n invalid_is_invalid)
  from a b c p show ?thesis
    by (simp only: invalidSyntaxMessage_shape simp_thms)
next
  case (Some kv)
  obtain rawKey rawValue where kv: "kv = (rawKey, rawValue)" by (cases kv)
  note e = processLine_match_errors [OF assms(1,2) Some [unfolded kv], of i st]
  have c: "\<not> (CHR ''='' \<notin> set l \<or> startsWith l ''='')"
    using Some matchAssignment_None_plain [OF assms(3)] by simp
  have n: "newDiagnostics i l st =
      (if rawKey \<noteq> trim rawKey
       then [\<lparr>err_line = i + 1, err_message = whitespaceMessage rawKey, err_type = Warning\<rparr>]
       else [])"
    by (simp add: newDiagnostics_def e)
  have a: "st_errors (processLine i l st) = st_errors st @ newDiagnostics i l st"
    by (simp only: n e)
  have b: "\<not> list_ex isInvalidSyntax (newDiagnostics i l st)"
    by (simp add: n whitespace_not_invalid)
  from a b c show ?thesis by simp
qed

text \<open>
  The claim C3 as stated fails for a line that begins with \<^verbatim>\<open>=\<close>, and for a line with a
  carriage return after its \<^verbatim>\<open>=\<close> (a file with CR LF line ends): both contain \<^verbatim>\<open>=\<close>, and
  both get the "Invalid syntax" warning.
\<close>

theorem invalid_syntax_counterexample:
  "CHR ''='' \<in> set ''=x'' \<and>
   errors (parseContent ''.env'' ''=x'') =
     [\<lparr>err_line = 1, err_message = ''Invalid syntax: '' @ [dquote] @ ''=x'' @ [dquote],
       err_type = Warning\<rparr>] \<and>
   CHR ''='' \<in> set (''A=1'' @ [CR]) \<and>
   errors (parseContent ''.env'' (''A=1'' @ [CR, LF] @ ''B=2'')) =
     [\<lparr>err_line = 1, err_message = ''Invalid syntax: '' @ [dquote] @ ''A=1'' @ [dquote],
       err_type = Warning\<rparr>]"
  by code_simp

text \<open>A line without \<^verbatim>\<open>=\<close>, a line that begins with \<^verbatim>\<open>=\<close>, an assignment with a blank
  before the key, and an assignment with a carriage return inside the key.\<close>

theorem invalid_syntax_iff_witness:
  "processLine 4 ''not an assignment'' initialState =
     initialState\<lparr>st_errors :=
       [\<lparr>err_line = 5,
         err_message = ''Invalid syntax: '' @ [dquote] @ ''not an assignment'' @ [dquote],
         err_type = Warning\<rparr>]\<rparr> \<and>
   processLine 0 ''=x'' initialState =
     initialState\<lparr>st_errors :=
       [\<lparr>err_line = 1, err_message = ''Invalid syntax: '' @ [dquote] @ ''=x'' @ [dquote],
         err_type = Warning\<rparr>]\<rparr> \<and>
   \<not> list_ex isInvalidSyntax (newDiagnostics 0 '' A=1'' initialState) \<and>
   \<not> list_ex isInvalidSyntax (newDiagnostics 0 crKeyLine initialState)"
proof -
  have a: "trim ''not an assignment'' = ''not an assignment''" by code_simp
  have a2: "\<not> startsWith ''not an assignment'' ''#''" by code_simp
  have a3: "\<not> terminatorAfterEq ''not an assignment''" by code_simp
  have a4: "CHR ''='' \<notin> set ''not an assignment''" by code_simp
  have b: "trim ''=x'' = ''=x''" by code_simp
  have b2: "\<not> startsWith ''=x'' ''#''" by code_simp
  have b3: "\<not> terminatorAfterEq ''=x''" by code_simp
  have b4: "startsWith ''=x'' ''=''" by code_simp
  have c: "trim '' A=1'' = ''A=1''" by code_simp
  have c2: "\<not> startsWith ''A=1'' ''#''" by code_simp
  have c3: "\<not> terminatorAfterEq '' A=1''" by code_simp
  have c4: "\<not> startsWith '' A=1'' ''=''" by code_simp
  have d: "trim crKeyLine \<noteq> []" by code_simp
  have d2: "\<not> startsWith (trim crKeyLine) ''#''" by code_simp
  have d3: "\<not> terminatorAfterEq crKeyLine" by code_simp
  have d4: "\<not> startsWith crKeyLine ''=''" by code_simp
  have d5: "CHR ''='' \<in> set crKeyLine" by code_simp
  have 1: "processLine 4 ''not an assignment'' initialState =
     initialState\<lparr>st_errors :=
       [\<lparr>err_line = 5,
         err_message = ''Invalid syntax: '' @ [dquote] @ ''not an assignment'' @ [dquote],
         err_type = Warning\<rparr>]\<rparr>"
    using invalid_syntax_iff [of "''not an assignment''" 4 initialState] a2 a3 a4
    by (simp add: a initialState_def)
  have 2: "processLine 0 ''=x'' initialState =
     initialState\<lparr>st_errors :=
       [\<lparr>err_line = 1, err_message = ''Invalid syntax: '' @ [dquote] @ ''=x'' @ [dquote],
         err_type = Warning\<rparr>]\<rparr>"
    using invalid_syntax_iff [of "''=x''" 0 initialState] b2 b3 b4
    by (simp add: b initialState_def)
  have 3: "\<not> list_ex isInvalidSyntax (newDiagnostics 0 '' A=1'' initialState)"
    using invalid_syntax_iff [of "'' A=1''" 0 initialState] c2 c3 c4
    by (simp add: c)
  have 4: "\<not> list_ex isInvalidSyntax (newDiagnostics 0 crKeyLine initialState)"
    using invalid_syntax_iff [OF d d2 d3, of 0 initialState] d4 d5
    by simp
  from 1 2 3 4 show ?thesis by blast
qed

section \<open>The parser: comments and blank lines\<close>

lemma parseLoop_append:
  "parseLoop i (xs @ ys) st = parseLoop (i + length xs) ys (parseLoop i xs st)"
  by (induction xs arbitrary: i st) simp_all

lemma processLine_blank: "trim l = [] \<Longrightarrow> st_pendingComments (processLine i l st) = []"
  by (simp add: processLine_def)

lemma processLine_assign:
  assumes "trim l \<noteq> []" and "\<not> startsWith (trim l) ''#''"
    and "matchAssignment l = Some (rawKey, rawValue)"
  shows "Map_get (st_variables (processLine i l st)) (trim rawKey) =
     Some \<lparr>var_key = trim rawKey, var_value = pv_value (parseValue rawValue), var_line = i + 1,
           var_comments = st_pendingComments st,
           var_hasQuotes = pv_hasQuotes (parseValue rawValue),
           var_quoteChar = pv_quoteChar (parseValue rawValue)\<rparr>"
  using assms by (simp add: processLine_def Let_def Map_get_Map_set)

lemma processLine_other:
  assumes "\<not> assignsKey l key"
  shows "Map_get (st_variables (processLine i l st)) key = Map_get (st_variables st) key"
proof (cases "trim l = [] \<or> startsWith (trim l) ''#''")
  case True
  then show ?thesis by (auto simp: processLine_def Let_def)
next
  case False
  show ?thesis
  proof (cases "matchAssignment l")
    case None
    with False show ?thesis by (simp add: processLine_def Let_def)
  next
    case (Some kv)
    obtain rk rv where kv: "kv = (rk, rv)" by (cases kv)
    from assms False Some kv have "trim rk \<noteq> key"
      by (simp add: assignsKey_def)
    with False Some kv show ?thesis
      by (simp add: processLine_def Let_def Map_get_Map_set)
  qed
qed

lemma parseLoop_other:
  "\<forall>l \<in> set ls. \<not> assignsKey l key \<Longrightarrow>
   Map_get (st_variables (parseLoop i ls st)) key = Map_get (st_variables st) key"
  by (induction ls arbitrary: i st) (simp_all add: processLine_other)

text \<open>
  Claim C9. A blank line always clears the pending comments, whatever they were. So
  for every text in which a blank line stands directly before an assignment, whatever
  lines (comments included) come before the blank line, the entry of that assignment
  has an empty comment list, provided no later line assigns the same key again (the
  last occurrence of a key wins). The text \<^verbatim>\<open># note\<close>, blank line, \<^verbatim>\<open>KEY=1\<close> is the
  instance below.
\<close>

theorem blank_line_clears_comments:
  assumes "split_str LF content = pre @ [b, a] @ post"
    and "trim b = []"
    and "trim a \<noteq> []" and "\<not> startsWith (trim a) ''#''"
    and "matchAssignment a = Some (rawKey, rawValue)"
    and "\<forall>l \<in> set post. \<not> assignsKey l (trim rawKey)"
  shows "st_pendingComments (processLine i b st) = [] \<and>
     (\<exists>v. Map_get (variables (parseContent path content)) (trim rawKey) = Some v \<and>
          var_comments v = [] \<and> var_line v = length pre + 2)"
proof -
  let ?s1 = "parseLoop 0 pre initialState"
  let ?s2 = "processLine (length pre) b ?s1"
  let ?s3 = "processLine (length pre + 1) a ?s2"
  have f: "finalState content = parseLoop (length pre + 2) post ?s3"
    by (simp add: finalState_def assms(1) parseLoop_append)
  have p: "st_pendingComments ?s2 = []"
    using assms(2) by (rule processLine_blank)
  have "Map_get (st_variables ?s3) (trim rawKey) =
     Some \<lparr>var_key = trim rawKey, var_value = pv_value (parseValue rawValue),
           var_line = length pre + 1 + 1, var_comments = st_pendingComments ?s2,
           var_hasQuotes = pv_hasQuotes (parseValue rawValue),
           var_quoteChar = pv_quoteChar (parseValue rawValue)\<rparr>"
    using assms(3-5) by (rule processLine_assign)
  then have "Map_get (st_variables (finalState content)) (trim rawKey) =
     Some \<lparr>var_key = trim rawKey, var_value = pv_value (parseValue rawValue),
           var_line = length pre + 2, var_comments = [],
           var_hasQuotes = pv_hasQuotes (parseValue rawValue),
           var_quoteChar = pv_quoteChar (parseValue rawValue)\<rparr>"
    unfolding f using parseLoop_other [OF assms(6)] p by simp
  then have "\<exists>v. Map_get (variables (parseContent path content)) (trim rawKey) = Some v \<and>
          var_comments v = [] \<and> var_line v = length pre + 2"
    by (simp add: parseContent_variables)
  moreover have "st_pendingComments (processLine i b st) = []"
    using assms(2) by (rule processLine_blank)
  ultimately show ?thesis by blast
qed

theorem blank_line_clears_comments_witness:
  "\<exists>v. Map_get (variables (parseContent ''.env'' noteText)) ''KEY'' = Some v \<and>
        var_comments v = [] \<and> var_line v = 3"
proof -
  have 1: "split_str LF noteText = [''# note''] @ [[], ''KEY=1''] @ []" by code_simp
  have 2: "trim [] = []" by code_simp
  have 3: "trim ''KEY=1'' \<noteq> []" by code_simp
  have 4: "\<not> startsWith (trim ''KEY=1'') ''#''" by code_simp
  have 5: "matchAssignment ''KEY=1'' = Some (''KEY'', ''1'')" by code_simp
  have 6: "\<forall>l \<in> set []. \<not> assignsKey l (trim ''KEY'')" by simp
  have 7: "trim ''KEY'' = ''KEY''" by code_simp
  show ?thesis
    using blank_line_clears_comments [OF 1 2 3 4 5 6, of 0 initialState "''.env''"]
    by (simp add: 7 numeral_3_eq_3)
qed

end
